theory Spec2Isabelle
  imports Complex_Main
begin

section \<open>Data model\<close>

text \<open>
  The rows of the tables that \<^verbatim>\<open>backend/routes/api/spots.js\<close> reads and writes
  through the object-relational mapper. Primary and foreign keys are natural numbers
  (the route parameter \<^verbatim>\<open>spotId\<close> is the key the database compares with), dates are
  points of a linear order (a day number), and JavaScript numbers are rationals, so
  that a quotient is exact. The timestamp columns that the mapper maintains by itself
  are not rows of the source and are left out.
\<close>

type_synonym date = int

record user =
  user_id :: nat
  firstName :: string
  lastName :: string
  email :: string
  password :: string

text \<open>
  The nine columns of a spot that a request body carries, and the spot itself: these
  nine columns, its key and its owner.
\<close>

record spotBody =
  address :: string
  city :: string
  state :: string
  country :: string
  lat :: rat
  lng :: rat
  name :: string
  description :: string
  price :: rat

record spot = spotBody +
  spot_id :: nat
  ownerId :: nat

record spotImage =
  image_id :: nat
  i_spotId :: nat
  url :: string
  preview :: "bool option"

record booking =
  booking_id :: nat
  b_spotId :: nat
  b_userId :: nat
  startDate :: date
  endDate :: date

record review =
  review_id :: nat
  r_spotId :: nat
  r_userId :: nat
  r_review :: string
  stars :: int

record store =
  users :: "user list"
  spots :: "spot list"
  spotImages :: "spotImage list"
  bookings :: "booking list"
  reviews :: "review list"

section \<open>Requests, responses and the error pipeline\<close>

datatype json =
  JNull
| JBool bool
| JNum rat
| JStr string
| JArr "json list"
| JObj "(string \<times> json) list"

fun getField :: "string \<Rightarrow> json \<Rightarrow> json option" where
  "getField k (JObj kvs) = map_of kvs k"
| "getField k _ = None"

fun keys :: "json \<Rightarrow> string list" where
  "keys (JObj kvs) = map fst kvs"
| "keys _ = []"

definition messageJSON :: "string \<Rightarrow> json" where
  "messageJSON m = JObj [(''message'', JStr m)]"

text \<open>
  A JavaScript \<^verbatim>\<open>Error\<close> as the handlers build it: \<^verbatim>\<open>err.status\<close> is absent on an
  error that the runtime throws by itself, \<^verbatim>\<open>err.errors\<close> is empty unless set.
\<close>

record error =
  status :: "nat option"
  message :: string
  errors :: "(string \<times> string) list"

text \<open>
  What a handler hands over: \<^verbatim>\<open>next(err)\<close> or \<^verbatim>\<open>res.status(c).json(body)\<close>.
\<close>

datatype outcome = Next error | Sent nat json

text \<open>
  The error formatter of the application (the last middleware of the second source
  file) answers \<^verbatim>\<open>next(err)\<close> with the status \<^verbatim>\<open>err.status || 500\<close>.
\<close>

definition errStatus :: "error \<Rightarrow> nat" where
  "errStatus err = (case status err of None \<Rightarrow> 500 | Some s \<Rightarrow> if s = 0 then 500 else s)"

fun statusCode :: "outcome \<Rightarrow> nat" where
  "statusCode (Next err) = errStatus err"
| "statusCode (Sent c body) = c"

text \<open>
  The response object of one request: \<open>None\<close> until something has been sent. The
  first \<^verbatim>\<open>next(err)\<close> or \<^verbatim>\<open>res.json\<close> sends the response; once the headers are
  sent, \<^verbatim>\<open>res.json\<close> throws and the formatter that a later \<^verbatim>\<open>next(err)\<close> reaches
  cannot replace what the client has received.
\<close>

type_synonym res = "outcome option"

definition next_err :: "error \<Rightarrow> res \<Rightarrow> res" where
  "next_err err r = (case r of None \<Rightarrow> Some (Next err) | Some sent \<Rightarrow> Some sent)"

definition headersSentError :: error where
  "headersSentError =
     \<lparr>status = None, message = ''Cannot set headers after they are sent to the client'',
      errors = []\<rparr>"

definition res_json :: "nat \<Rightarrow> json \<Rightarrow> res \<Rightarrow> error + res" where
  "res_json c body r =
     (case r of None \<Rightarrow> Inr (Some (Sent c body)) | Some sent \<Rightarrow> Inl headersSentError)"

section \<open>Persistence gateway\<close>

definition Spot_findByPk :: "store \<Rightarrow> nat \<Rightarrow> spot option" where
  "Spot_findByPk st spotId = find (\<lambda>s. spot_id s = spotId) (spots st)"

definition User_findByPk :: "store \<Rightarrow> nat \<Rightarrow> user option" where
  "User_findByPk st uid = find (\<lambda>u. user_id u = uid) (users st)"

text \<open>The key of a new row: one more than every key of the table.\<close>

definition freshId :: "nat list \<Rightarrow> nat" where
  "freshId ids = Suc (fold max ids 0)"

definition Booking_create :: "store \<Rightarrow> nat \<Rightarrow> nat \<Rightarrow> date \<Rightarrow> date \<Rightarrow> booking \<times> store" where
  "Booking_create st spotId userId sd ed =
     (let b = \<lparr>booking_id = freshId (map booking_id (bookings st)),
                b_spotId = spotId, b_userId = userId, startDate = sd, endDate = ed\<rparr>
      in (b, st\<lparr>bookings := bookings st @ [b]\<rparr>))"

definition Booking_findAll :: "store \<Rightarrow> nat \<Rightarrow> booking list" where
  "Booking_findAll st spotId = filter (\<lambda>b. b_spotId b = spotId) (bookings st)"

definition Review_findAll :: "store \<Rightarrow> nat \<Rightarrow> review list" where
  "Review_findAll st spotId = filter (\<lambda>r. r_spotId r = spotId) (reviews st)"

definition Review_count :: "store \<Rightarrow> nat \<Rightarrow> nat" where
  "Review_count st spotId = length (filter (\<lambda>r. r_spotId r = spotId) (reviews st))"

definition Review_findOne :: "store \<Rightarrow> nat \<Rightarrow> nat \<Rightarrow> review option" where
  "Review_findOne st spotId uid =
     find (\<lambda>r. r_spotId r = spotId \<and> r_userId r = uid) (reviews st)"

definition Review_create :: "store \<Rightarrow> nat \<Rightarrow> nat \<Rightarrow> string \<Rightarrow> int \<Rightarrow> review \<times> store" where
  "Review_create st spotId userId reviewText n =
     (let r = \<lparr>review_id = freshId (map review_id (reviews st)),
                r_spotId = spotId, r_userId = userId, r_review = reviewText, stars = n\<rparr>
      in (r, st\<lparr>reviews := reviews st @ [r]\<rparr>))"

definition SpotImages_create ::
  "store \<Rightarrow> string \<Rightarrow> bool option \<Rightarrow> nat \<Rightarrow> spotImage \<times> store" where
  "SpotImages_create st u p spotId =
     (let i = \<lparr>image_id = freshId (map image_id (spotImages st)),
                i_spotId = spotId, url = u, preview = p\<rparr>
      in (i, st\<lparr>spotImages := spotImages st @ [i]\<rparr>))"

text \<open>
  \<^verbatim>\<open>spot.update({...})\<close> writes the nine columns of the row with the key of
  \<^verbatim>\<open>spot\<close>; \<^verbatim>\<open>spot.destroy()\<close> deletes that row. What the database does to the rows
  of other tables that refer to a deleted spot is fixed by the migrations, which are not
  part of the source.
\<close>

definition Spot_update :: "store \<Rightarrow> spot \<Rightarrow> spotBody \<Rightarrow> store" where
  "Spot_update st spot body =
     st\<lparr>spots := map (\<lambda>s. if spot_id s = spot_id spot
                           then s\<lparr>address := address body, city := city body,
                                  state := state body, country := country body,
                                  lat := lat body, lng := lng body, name := name body,
                                  description := description body, price := price body\<rparr>
                           else s) (spots st)\<rparr>"

definition Spot_destroy :: "store \<Rightarrow> spot \<Rightarrow> store" where
  "Spot_destroy st spot = st\<lparr>spots := filter (\<lambda>s. spot_id s \<noteq> spot_id spot) (spots st)\<rparr>"

text \<open>
  Modelled from the spec: the attributes of the review model (the models are not part of
  the source). Section 3 gives a review its id, spot id, user id, review text and stars,
  and the handler's own \<^verbatim>\<open>Review.create\<close> writes \<^verbatim>\<open>spotId\<close>, \<^verbatim>\<open>userId\<close>,
  \<^verbatim>\<open>review\<close> and \<^verbatim>\<open>stars\<close>; the mapper adds the two timestamps.
\<close>

definition Review_attributes :: "string list" where
  "Review_attributes =
     [''id'', ''spotId'', ''userId'', ''review'', ''stars'', ''createdAt'', ''updatedAt'']"

text \<open>
  A row that \<^verbatim>\<open>findAll\<close> returns (no \<^verbatim>\<open>raw: true\<close>) is an instance of the model.
  It holds the selected values by name, and it has a property for each attribute of the
  model and for nothing else: reading another name, such as the alias of an aggregate,
  gives \<^verbatim>\<open>undefined\<close>, here \<open>None\<close>.
\<close>

type_synonym modelInstance = "(string \<times> rat) list"

definition property :: "string list \<Rightarrow> string \<Rightarrow> modelInstance \<Rightarrow> rat option" where
  "property attrs k inst = (if k \<in> set attrs then map_of inst k else None)"

text \<open>
  The grouped query of the list view: one row per spot id that is among \<open>spotIds\<close>
  and has a review, holding \<^verbatim>\<open>spotId\<close> and, under the alias \<^verbatim>\<open>avgRating\<close>, the
  \<^verbatim>\<open>AVG\<close> of the stars of that spot's reviews.
\<close>

definition AVG :: "int list \<Rightarrow> rat" where
  "AVG xs = of_int (sum_list xs) / of_nat (length xs)"

definition Review_avgBySpot :: "store \<Rightarrow> nat list \<Rightarrow> modelInstance list" where
  "Review_avgBySpot st spotIds =
     map (\<lambda>sid. [(''spotId'', of_nat sid),
                 (''avgRating'', AVG (map stars (filter (\<lambda>r. r_spotId r = sid) (reviews st))))])
       (remdups (filter (\<lambda>sid. sid \<in> set spotIds) (map r_spotId (reviews st))))"

text \<open>
  Modelled from the spec: the columns of the table of spot images (the models and the
  migrations are not part of the source). Section 3 gives an image its id, the id of its
  parent, a url and an optional preview flag, and the handler's own
  \<^verbatim>\<open>SpotImages.create\<close> writes \<^verbatim>\<open>url\<close>, \<^verbatim>\<open>preview\<close> and \<^verbatim>\<open>spotId\<close>; the mapper
  adds the two timestamps.
\<close>

definition SpotImages_columns :: "string list" where
  "SpotImages_columns = [''id'', ''spotId'', ''url'', ''preview'', ''createdAt'', ''updatedAt'']"

section \<open>Serialisation\<close>

definition booking_toJSON :: "booking \<Rightarrow> (string \<times> json) list" where
  "booking_toJSON b =
     [(''id'', JNum (of_nat (booking_id b))),
      (''spotId'', JNum (of_nat (b_spotId b))),
      (''userId'', JNum (of_nat (b_userId b))),
      (''startDate'', JNum (of_int (startDate b))),
      (''endDate'', JNum (of_int (endDate b)))]"

definition review_toJSON :: "review \<Rightarrow> (string \<times> json) list" where
  "review_toJSON r =
     [(''id'', JNum (of_nat (review_id r))),
      (''spotId'', JNum (of_nat (r_spotId r))),
      (''userId'', JNum (of_nat (r_userId r))),
      (''review'', JStr (r_review r)),
      (''stars'', JNum (of_int (stars r)))]"

definition spotImage_toJSON :: "spotImage \<Rightarrow> (string \<times> json) list" where
  "spotImage_toJSON i =
     [(''id'', JNum (of_nat (image_id i))),
      (''url'', JStr (url i)),
      (''preview'', (case preview i of None \<Rightarrow> JNull | Some p \<Rightarrow> JBool p)),
      (''spotId'', JNum (of_nat (i_spotId i)))]"

definition spot_toJSON :: "spot \<Rightarrow> (string \<times> json) list" where
  "spot_toJSON s =
     [(''id'', JNum (of_nat (spot_id s))),
      (''ownerId'', JNum (of_nat (ownerId s))),
      (''address'', JStr (address s)),
      (''city'', JStr (city s)),
      (''state'', JStr (state s)),
      (''country'', JStr (country s)),
      (''lat'', JNum (lat s)),
      (''lng'', JNum (lng s)),
      (''name'', JStr (name s)),
      (''description'', JStr (description s)),
      (''price'', JNum (price s))]"

text \<open>The attributes \<^verbatim>\<open>["id", "firstName", "lastName"]\<close> of an included user.\<close>

definition user_attributes :: "user \<Rightarrow> json" where
  "user_attributes u =
     JObj [(''id'', JNum (of_nat (user_id u))),
           (''firstName'', JStr (firstName u)),
           (''lastName'', JStr (lastName u))]"

definition include_User :: "store \<Rightarrow> nat \<Rightarrow> json" where
  "include_User st uid = (case User_findByPk st uid of None \<Rightarrow> JNull | Some u \<Rightarrow> user_attributes u)"

section \<open>Creating a booking\<close>

text \<open>
  The custom check of \<^verbatim>\<open>validateBooking\<close>: it throws when
  \<^verbatim>\<open>startDate >= endDate\<close>, and the handler runs only when it has passed.
\<close>

definition validateBooking :: "date \<Rightarrow> date \<Rightarrow> bool" where
  "validateBooking sd ed = (\<not> sd \<ge> ed)"

text \<open>
  The \<^verbatim>\<open>where\<close> clause of the conflict query: the row is of this spot, and its
  \<^verbatim>\<open>startDate\<close> column or its \<^verbatim>\<open>endDate\<close> column is
  \<^verbatim>\<open>BETWEEN\<close> the two dates of the request.
\<close>

definition between :: "date \<Rightarrow> date \<Rightarrow> date \<Rightarrow> bool" where
  "between x lo hi = (lo \<le> x \<and> x \<le> hi)"

definition conflictWhere :: "nat \<Rightarrow> date \<Rightarrow> date \<Rightarrow> booking \<Rightarrow> bool" where
  "conflictWhere spotId sd ed b =
     (b_spotId b = spotId \<and> (between (startDate b) sd ed \<or> between (endDate b) sd ed))"

definition bookingConflicts :: "store \<Rightarrow> nat \<Rightarrow> date \<Rightarrow> date \<Rightarrow> booking list" where
  "bookingConflicts st spotId sd ed = filter (conflictWhere spotId sd ed) (bookings st)"

definition datesBookedError :: error where
  "datesBookedError =
     \<lparr>status = Some 403,
      message = ''Sorry, this spot is already booked for the specified dates'',
      errors = []\<rparr>"

text \<open>
  The handler of \<^verbatim>\<open>POST /:spotId/bookings\<close>. The two first checks call
  \<^verbatim>\<open>next(err)\<close> and do not return: with no spot, reading \<^verbatim>\<open>spot.ownerId\<close> then
  throws and the \<^verbatim>\<open>catch\<close> calls \<^verbatim>\<open>next\<close> again; with the owner as requester, the
  handler goes on to the conflict query and to \<^verbatim>\<open>Booking.create\<close>.
\<close>

definition postBooking :: "store \<Rightarrow> nat \<Rightarrow> nat \<Rightarrow> date \<Rightarrow> date \<Rightarrow> res \<times> store" where
  "postBooking st uid spotId sd ed =
     (case Spot_findByPk st spotId of
        None \<Rightarrow>
          (let r1 = next_err \<lparr>status = Some 404, message = ''Spot Image couldn't be found'',
                              errors = []\<rparr> None;
               r2 = next_err \<lparr>status = None,
                               message = ''Cannot read properties of null (reading 'ownerId')'',
                               errors = []\<rparr> r1
           in (r2, st))
      | Some spot \<Rightarrow>
          (let r1 = (if ownerId spot = uid
                     then next_err \<lparr>status = Some 403, message = ''Spot must not belong to user'',
                                     errors = []\<rparr> None
                     else None)
           in if length (bookingConflicts st spotId sd ed) > 0
              then (next_err datesBookedError r1, st)
              else (case Booking_create st spotId uid sd ed of
                      (b, st') \<Rightarrow>
                        (case res_json 201 (JObj (booking_toJSON b)) r1 of
                           Inr r2 \<Rightarrow> (r2, st')
                         | Inl e \<Rightarrow> (next_err e r1, st')))))"

text \<open>
  Two inclusive date ranges overlap when the later start is not after the earlier end.
\<close>

definition overlap :: "date \<Rightarrow> date \<Rightarrow> date \<Rightarrow> date \<Rightarrow> bool" where
  "overlap a b c d = (max a c \<le> min b d)"

text \<open>Some two bookings of one spot, at different places of the table, overlap.\<close>

primrec hasOverlap :: "booking list \<Rightarrow> bool" where
  "hasOverlap [] = False"
| "hasOverlap (b # bs) =
     (list_ex (\<lambda>b'. b_spotId b' = b_spotId b
                   \<and> overlap (startDate b) (endDate b) (startDate b') (endDate b')) bs
      \<or> hasOverlap bs)"

text \<open>
  The conflict test in the words of the specification: the proposed start or the
  proposed end lies within the range of the existing booking.
\<close>

definition specConflict :: "nat \<Rightarrow> date \<Rightarrow> date \<Rightarrow> booking \<Rightarrow> bool" where
  "specConflict spotId sd ed b =
     (b_spotId b = spotId
      \<and> (between sd (startDate b) (endDate b) \<or> between ed (startDate b) (endDate b)))"

section \<open>Creating a review\<close>

definition postReview :: "store \<Rightarrow> nat \<Rightarrow> nat \<Rightarrow> string \<Rightarrow> int \<Rightarrow> outcome \<times> store" where
  "postReview st uid spotId reviewText n =
     (case Spot_findByPk st spotId of
        None \<Rightarrow> (Sent 404 (messageJSON ''Spot couldn't be found''), st)
      | Some spot \<Rightarrow>
          if ownerId spot = uid
          then (Sent 403 (messageJSON ''Forbidden: Can not review your own spot''), st)
          else (case Review_findOne st spotId uid of
                  Some existingReview \<Rightarrow>
                    (Sent 500 (messageJSON ''User already has a review for this spot''), st)
                | None \<Rightarrow>
                    (case Review_create st spotId uid reviewText n of
                       (newReview, st') \<Rightarrow> (Sent 201 (JObj (review_toJSON newReview)), st'))))"

text \<open>The two invariants of the table of reviews.\<close>

definition oneReviewPerUser :: "store \<Rightarrow> bool" where
  "oneReviewPerUser st = distinct (map (\<lambda>r. (r_spotId r, r_userId r)) (reviews st))"

definition noOwnerReview :: "store \<Rightarrow> bool" where
  "noOwnerReview st =
     list_all (\<lambda>r. case Spot_findByPk st (r_spotId r) of
                     None \<Rightarrow> True
                   | Some s \<Rightarrow> ownerId s \<noteq> r_userId r) (reviews st)"

section \<open>Mutating a spot: images, edit, delete\<close>

definition postImage ::
  "store \<Rightarrow> nat \<Rightarrow> nat \<Rightarrow> string option \<Rightarrow> bool option \<Rightarrow> outcome \<times> store" where
  "postImage st uid spotId u p =
     (case (case u of None \<Rightarrow> None | Some v \<Rightarrow> if v = [] then None else Some v) of
        None \<Rightarrow>
          (Next \<lparr>status = Some 400, message = ''Validation error'',
                 errors = [(''url'', ''Image url is required'')]\<rparr>, st)
      | Some v \<Rightarrow>
          (case Spot_findByPk st spotId of
             None \<Rightarrow> (Sent 404 (messageJSON ''Spot couldn't be found''), st)
           | Some spot \<Rightarrow>
               if ownerId spot \<noteq> uid
               then (Sent 403 (messageJSON ''Forbidden''), st)
               else (case SpotImages_create st v p spotId of
                       (newSpotImage, st') \<Rightarrow>
                         (Sent 201 (JObj (spotImage_toJSON newSpotImage)), st'))))"

definition putSpot :: "store \<Rightarrow> nat \<Rightarrow> nat \<Rightarrow> spotBody \<Rightarrow> outcome \<times> store" where
  "putSpot st uid spotId body =
     (case Spot_findByPk st spotId of
        None \<Rightarrow> (Sent 404 (messageJSON ''Spot couldn't be found''), st)
      | Some spot \<Rightarrow>
          if ownerId spot \<noteq> uid
          then (Sent 403 (messageJSON ''Forbidden''), st)
          else (Sent 200
                  (JObj [(''id'', JNum (of_nat (spot_id spot))),
                         (''address'', JStr (address body)),
                         (''city'', JStr (city body)),
                         (''state'', JStr (state body)),
                         (''country'', JStr (country body)),
                         (''lat'', JNum (lat body)),
                         (''lng'', JNum (lng body)),
                         (''name'', JStr (name body)),
                         (''description'', JStr (description body)),
                         (''price'', JNum (price body))]),
                Spot_update st spot body))"

definition deleteSpot :: "store \<Rightarrow> nat \<Rightarrow> nat \<Rightarrow> outcome \<times> store" where
  "deleteSpot st uid spotId =
     (case Spot_findByPk st spotId of
        None \<Rightarrow> (Sent 404 (messageJSON ''Spot couldn't be found''), st)
      | Some spot \<Rightarrow>
          if ownerId spot \<noteq> uid
          then (Sent 403 (messageJSON ''Forbidden''), st)
          else (Sent 200 (messageJSON ''Successfully deleted''), Spot_destroy st spot))"

section \<open>Listing the bookings of a spot\<close>

definition booking_basic :: "booking \<Rightarrow> json" where
  "booking_basic b =
     JObj [(''spotId'', JNum (of_nat (b_spotId b))),
           (''startDate'', JNum (of_int (startDate b))),
           (''endDate'', JNum (of_int (endDate b)))]"

definition booking_with_User :: "store \<Rightarrow> booking \<Rightarrow> json" where
  "booking_with_User st b = JObj (booking_toJSON b @ [(''User'', include_User st (b_userId b))])"

definition getBookings :: "store \<Rightarrow> nat \<Rightarrow> nat \<Rightarrow> outcome" where
  "getBookings st uid spotId =
     (case Spot_findByPk st spotId of
        None \<Rightarrow> Next \<lparr>status = Some 404, message = ''Spot couldn't be found'', errors = []\<rparr>
      | Some spot \<Rightarrow>
          (let isOwner = (ownerId spot = uid)
           in if isOwner
              then Sent 200 (JObj [(''Bookings'',
                      JArr (map (booking_with_User st) (Booking_findAll st spotId)))])
              else Sent 200 (JObj [(''Bookings'',
                      JArr (map booking_basic (Booking_findAll st spotId)))])))"

section \<open>Average rating\<close>

text \<open>
  A JavaScript number that may be \<^verbatim>\<open>NaN\<close>; \<^verbatim>\<open>parseFloat(undefined)\<close> is
  \<^verbatim>\<open>NaN\<close>, and a number is parsed to itself.
\<close>

datatype number = NaN | Number rat

definition parseFloat :: "rat option \<Rightarrow> number" where
  "parseFloat v = (case v of None \<Rightarrow> NaN | Some x \<Rightarrow> Number x)"

text \<open>
  The list view, from the page of spots that \<^verbatim>\<open>Spot.findAll\<close> has returned for the
  parsed \<open>page\<close> and \<open>size\<close> (here \<open>pageSize\<close>). The reducer destructures
  \<^verbatim>\<open>{ spotId, avgRating }\<close> from each row, an instance of the review model, and stores
  \<^verbatim>\<open>parseFloat(avgRating)\<close> under the key \<^verbatim>\<open>spotId\<close>;
  \<^verbatim>\<open>avgRatingsMap[spot.id] || null\<close> is \<^verbatim>\<open>null\<close> for a missing key, for
  \<^verbatim>\<open>NaN\<close> and for the number zero.
\<close>

definition orNull :: "number option \<Rightarrow> json" where
  "orNull v =
     (case v of
        None \<Rightarrow> JNull
      | Some NaN \<Rightarrow> JNull
      | Some (Number x) \<Rightarrow> if x = 0 then JNull else JNum x)"

definition avgRatingsMap :: "modelInstance list \<Rightarrow> (rat option \<rightharpoonup> number)" where
  "avgRatingsMap avgRatings =
     foldl (\<lambda>acc row.
              (case (property Review_attributes ''spotId'' row,
                     property Review_attributes ''avgRating'' row) of
                 (spotId, avgRating) \<Rightarrow> acc(spotId \<mapsto> parseFloat avgRating)))
       Map.empty avgRatings"

definition getSpots :: "store \<Rightarrow> spot list \<Rightarrow> nat \<Rightarrow> nat \<Rightarrow> outcome" where
  "getSpots st found page pageSize =
     (let spotIds = map spot_id found;
          avgRatings = Review_avgBySpot st spotIds;
          m = avgRatingsMap avgRatings;
          spotsResults =
            map (\<lambda>spot. JObj (spot_toJSON spot @
                           [(''avgRating'', orNull (m (Some (of_nat (spot_id spot)))))]))
              found
      in Sent 200 (JObj [(''Spots'', JArr spotsResults),
                         (''page'', JNum (of_nat page)),
                         (''size'', JNum (of_nat pageSize)),
                         (''total'', JNum (of_nat (length found)))]))"

text \<open>
  The detail view. The average is computed first. The query for the spot then includes
  the images of the spot and asks of each image for the attributes below, which are the
  columns of a spot: it fails in the database when one of them is not a column of the
  table of images, the \<^verbatim>\<open>catch\<close> hands the error (which has no status; its wording is
  the database's) to \<^verbatim>\<open>next\<close>, and nothing of the spot is reported.
\<close>

definition avgStarRating :: "store \<Rightarrow> nat \<Rightarrow> rat" where
  "avgStarRating st spotId =
     (let numReviews = Review_count st spotId;
          rs = Review_findAll st spotId
      in if length rs > 0
         then of_int (foldl (\<lambda>acc review. acc + stars review) 0 rs) / of_nat numReviews
         else 0)"

definition include_SpotImages_attributes :: "string list" where
  "include_SpotImages_attributes =
     [''id'', ''ownerId'', ''address'', ''city'', ''state'', ''country'', ''lat'', ''lng'',
      ''name'', ''description'', ''price'']"

definition include_SpotImages :: "store \<Rightarrow> nat \<Rightarrow> json" where
  "include_SpotImages st spotId =
     JArr (map (\<lambda>i. JObj (map (\<lambda>a. (a, case map_of (spotImage_toJSON i) a of
                                             None \<Rightarrow> JNull | Some v \<Rightarrow> v))
                              include_SpotImages_attributes))
             (filter (\<lambda>i. i_spotId i = spotId) (spotImages st)))"

definition getSpot :: "store \<Rightarrow> nat \<Rightarrow> outcome" where
  "getSpot st spotId =
     (let numReviews = Review_count st spotId;
          avg = avgStarRating st spotId
      in if list_ex (\<lambda>a. a \<notin> set SpotImages_columns) include_SpotImages_attributes
         then Next \<lparr>status = None, message = ''no such column: SpotImages.ownerId'',
                     errors = []\<rparr>
         else (case Spot_findByPk st spotId of
                 None \<Rightarrow>
                   Next \<lparr>status = Some 404, message = ''Spot couldn't be found'', errors = []\<rparr>
               | Some preSpot \<Rightarrow>
                   Sent 200
                     (JObj (spot_toJSON preSpot @
                        [(''numReviews'', JNum (of_nat numReviews)),
                         (''avgStarRating'', JNum avg),
                         (''SpotImages'', include_SpotImages st spotId),
                         (''Owner'', include_User st (ownerId preSpot))]))))"

section \<open>An example store\<close>

text \<open>
  The scenario of the specification: spot 7 is owned by user 1; users 2 and 3 are
  guests.
\<close>

definition exampleUsers :: "user list" where
  "exampleUsers =
     [\<lparr>user_id = 1, firstName = ''John'', lastName = ''Doe'',
       email = ''johndoe@example.com'', password = ''password123''\<rparr>,
      \<lparr>user_id = 2, firstName = ''Ada'', lastName = ''Moon'',
       email = ''ada@example.com'', password = ''secret2''\<rparr>,
      \<lparr>user_id = 3, firstName = ''Lin'', lastName = ''Park'',
       email = ''lin@example.com'', password = ''secret3''\<rparr>]"

definition exampleSpot :: spot where
  "exampleSpot =
     \<lparr>address = ''1 Main St'', city = ''Springfield'', state = ''IL'', country = ''USA'',
      lat = 40, lng = -90, name = ''Cabin'', description = ''A cabin'', price = 100,
      spot_id = 7, ownerId = 1\<rparr>"

definition exampleBody :: spotBody where
  "exampleBody =
     \<lparr>address = ''2 Oak Ave'', city = ''Shelbyville'', state = ''IL'', country = ''USA'',
      lat = 41, lng = -89, name = ''Lodge'', description = ''A lodge'', price = 120\<rparr>"

definition exampleStore :: store where
  "exampleStore =
     \<lparr>users = exampleUsers, spots = [exampleSpot], spotImages = [], bookings = [],
      reviews = []\<rparr>"

text \<open>The example store after user 2 has booked spot 7 from day 1 to day 10.\<close>

definition bookedStore :: store where
  "bookedStore =
     exampleStore\<lparr>bookings :=
       [\<lparr>booking_id = 1, b_spotId = 7, b_userId = 2, startDate = 1, endDate = 10\<rparr>]\<rparr>"

text \<open>The example store after users 2 and 3 have reviewed spot 7 with 3 and 5 stars.\<close>

definition reviewedStore :: store where
  "reviewedStore =
     exampleStore\<lparr>reviews :=
       [\<lparr>review_id = 1, r_spotId = 7, r_userId = 2, r_review = ''Good'', stars = 3\<rparr>,
        \<lparr>review_id = 2, r_spotId = 7, r_userId = 3, r_review = ''Superb'', stars = 5\<rparr>]\<rparr>"

section \<open>Properties of booking creation\<close>

lemmas ex_defs = exampleStore_def exampleSpot_def exampleUsers_def bookedStore_def
  reviewedStore_def exampleBody_def
lemmas pb_defs = postBooking_def Spot_findByPk_def bookingConflicts_def conflictWhere_def
  between_def next_err_def res_json_def Booking_create_def freshId_def errStatus_def
  datesBookedError_def

text \<open>
  The executable test \<open>overlap\<close> is the usual notion: the two inclusive ranges have a
  day in common.
\<close>

lemma overlap_iff: "overlap a b c d \<longleftrightarrow> (\<exists>x. a \<le> x \<and> x \<le> b \<and> c \<le> x \<and> x \<le> d)"
  unfolding overlap_def
proof
  assume "max a c \<le> min b d"
  then have "a \<le> max a c \<and> max a c \<le> b \<and> c \<le> max a c \<and> max a c \<le> d" by simp
  then show "\<exists>x. a \<le> x \<and> x \<le> b \<and> c \<le> x \<and> x \<le> d" by blast
next
  assume "\<exists>x. a \<le> x \<and> x \<le> b \<and> c \<le> x \<and> x \<le> d"
  then show "max a c \<le> min b d" by auto
qed

lemma find_Some_key: "find P xs = Some x \<Longrightarrow> P x \<and> x \<in> set xs"
  by (induction xs) (auto split: if_splits)

lemma Spot_findByPk_Some: "Spot_findByPk st spotId = Some spot \<Longrightarrow> spot_id spot = spotId \<and> spot \<in> set (spots st)"
  unfolding Spot_findByPk_def by (drule find_Some_key) simp

lemma postBooking_conflict:
  assumes "Spot_findByPk st spotId = Some spot" "length (bookingConflicts st spotId sd ed) > 0"
  shows "snd (postBooking st uid spotId sd ed) = st"
    and "map_option statusCode (fst (postBooking st uid spotId sd ed)) = Some 403"
    and "ownerId spot \<noteq> uid \<Longrightarrow> fst (postBooking st uid spotId sd ed) = Some (Next datesBookedError)"
  using assms by (simp_all add: postBooking_def next_err_def errStatus_def datesBookedError_def)

lemma postBooking_no_conflict:
  assumes "Spot_findByPk st spotId = Some spot" "\<not> length (bookingConflicts st spotId sd ed) > 0"
    "ownerId spot \<noteq> uid"
  shows "postBooking st uid spotId sd ed =
     (Some (Sent 201 (JObj (booking_toJSON
        \<lparr>booking_id = freshId (map booking_id (bookings st)), b_spotId = spotId,
         b_userId = uid, startDate = sd, endDate = ed\<rparr>))),
      st\<lparr>bookings := bookings st @
        [\<lparr>booking_id = freshId (map booking_id (bookings st)), b_spotId = spotId,
          b_userId = uid, startDate = sd, endDate = ed\<rparr>]\<rparr>)"
  using assms by (simp add: postBooking_def res_json_def Booking_create_def Let_def)

lemma no_overlap_no_conflict:
  assumes wf: "\<forall>b\<in>set (bookings st). b_spotId b = spotId \<longrightarrow> startDate b \<le> endDate b"
    and no: "\<forall>b\<in>set (bookings st). b_spotId b = spotId
               \<longrightarrow> \<not> overlap (startDate b) (endDate b) d1 d2"
  shows "bookingConflicts st spotId d1 d2 = []"
proof -
  have "\<not> conflictWhere spotId d1 d2 b" if "b \<in> set (bookings st)" for b
  proof
    assume c: "conflictWhere spotId d1 d2 b"
    then have s: "b_spotId b = spotId" by (simp add: conflictWhere_def)
    from wf that s have "startDate b \<le> endDate b" by blast
    moreover from no that s have "\<not> overlap (startDate b) (endDate b) d1 d2" by blast
    ultimately show False using c
      by (auto simp: conflictWhere_def between_def overlap_def)
  qed
  then show ?thesis by (simp add: bookingConflicts_def filter_empty_conv)
qed

text \<open>
  A validated request keeps every booking well formed (its start not after its end).
\<close>

lemma postBooking_wellFormed:
  assumes "validateBooking sd ed" and "list_all (\<lambda>b. startDate b \<le> endDate b) (bookings st)"
  shows "list_all (\<lambda>b. startDate b \<le> endDate b) (bookings (snd (postBooking st uid spotId sd ed)))"
  using assms
  by (auto simp: postBooking_def validateBooking_def Booking_create_def res_json_def Let_def
      split: option.splits sum.splits)

text \<open>
  The owner's request for a spot that exists is always answered with 403.
\<close>

lemma postBooking_owner_forbidden:
  assumes "Spot_findByPk st spotId = Some spot" and "ownerId spot = uid"
  shows "map_option statusCode (fst (postBooking st uid spotId sd ed)) = Some 403"
  using assms
  by (simp add: postBooking_def next_err_def res_json_def Booking_create_def errStatus_def
      Let_def)

text \<open>
  C1. The invariant that no two bookings of a spot overlap does not hold of the handler:
  from the example store with no booking, user 2 books spot 7 from day 1 to day 10 and
  user 3 then books it from day 3 to day 5. Both requests pass validation and are
  answered with 201, and the two stored ranges overlap: the conflict query looks for an
  existing booking that starts or ends within the requested range, and a requested range
  strictly inside an existing one has none.
\<close>

theorem postBooking_overlap_created:
  "(case postBooking exampleStore 2 7 1 10 of
      (r1, st1) \<Rightarrow>
        (case postBooking st1 3 7 3 5 of
           (r2, st2) \<Rightarrow>
             bookings exampleStore = [] \<and> validateBooking 1 10 \<and> validateBooking 3 5
             \<and> map_option statusCode r1 = Some 201 \<and> map_option statusCode r2 = Some 201
             \<and> map (\<lambda>b. (b_spotId b, b_userId b, startDate b, endDate b)) (bookings st2)
                 = [(7, 2, 1, 10), (7, 3, 3, 5)]
             \<and> hasOverlap (bookings st2)))"
  by (simp add: pb_defs ex_defs validateBooking_def overlap_def booking_toJSON_def Let_def)

text \<open>
  The conflict query and overlap. An existing booking of the spot that overlaps the
  requested range is found by the query unless the requested range lies strictly inside
  it; and, the stored bookings being well formed, the query finds a row only when some
  booking of the spot overlaps the requested range.
\<close>

lemma conflict_if_overlap_not_inside:
  assumes "b \<in> set (bookings st)" "b_spotId b = spotId"
    "overlap (startDate b) (endDate b) sd ed" "\<not> (startDate b < sd \<and> ed < endDate b)"
  shows "length (bookingConflicts st spotId sd ed) > 0"
proof -
  have "conflictWhere spotId sd ed b"
    using assms(2-4) by (auto simp: conflictWhere_def between_def overlap_def)
  with assms(1) show ?thesis
    by (auto simp: bookingConflicts_def filter_empty_conv)
qed

lemma conflict_only_if_overlap:
  assumes wf: "\<forall>b\<in>set (bookings st). b_spotId b = spotId \<longrightarrow> startDate b \<le> endDate b"
    and c: "length (bookingConflicts st spotId sd ed) > 0"
  shows "\<exists>b\<in>set (bookings st). b_spotId b = spotId \<and> overlap (startDate b) (endDate b) sd ed"
proof -
  from c obtain b where b: "b \<in> set (bookings st)" "conflictWhere spotId sd ed b"
    by (auto simp: bookingConflicts_def filter_empty_conv)
  then have s: "b_spotId b = spotId" by (simp add: conflictWhere_def)
  with wf b(1) have "startDate b \<le> endDate b" by blast
  with b(2) have "overlap (startDate b) (endDate b) sd ed"
    by (auto simp: conflictWhere_def between_def overlap_def)
  with b(1) s show ?thesis by blast
qed

text \<open>
  C2, amended. For a spot that exists and whose stored bookings are well formed: a
  conflict is declared whenever an existing booking of the spot overlaps the requested
  range (bounds included) and does not strictly contain it, so also when the existing
  range lies within the requested one; a conflict is declared only when some existing
  booking of the spot overlaps the requested range; and when a conflict is declared the
  store is unchanged and the response has status 403, for a requester who is not the
  owner the "already booked" error. A requested range strictly inside an existing
  booking is left open here.
\<close>

theorem postBooking_conflict_test:
  assumes "Spot_findByPk st spotId = Some spot"
    and "\<forall>b\<in>set (bookings st). b_spotId b = spotId \<longrightarrow> startDate b \<le> endDate b"
  shows "((\<exists>b\<in>set (bookings st). b_spotId b = spotId
             \<and> overlap (startDate b) (endDate b) sd ed
             \<and> \<not> (startDate b < sd \<and> ed < endDate b))
          \<longrightarrow> length (bookingConflicts st spotId sd ed) > 0)
         \<and> (length (bookingConflicts st spotId sd ed) > 0 \<longrightarrow>
               (\<exists>b\<in>set (bookings st). b_spotId b = spotId
                  \<and> overlap (startDate b) (endDate b) sd ed))
         \<and> (length (bookingConflicts st spotId sd ed) > 0 \<longrightarrow>
               snd (postBooking st uid spotId sd ed) = st
               \<and> map_option statusCode (fst (postBooking st uid spotId sd ed)) = Some 403
               \<and> (ownerId spot \<noteq> uid \<longrightarrow>
                    fst (postBooking st uid spotId sd ed) = Some (Next datesBookedError)))"
proof (intro conjI impI)
  assume "\<exists>b\<in>set (bookings st). b_spotId b = spotId
             \<and> overlap (startDate b) (endDate b) sd ed
             \<and> \<not> (startDate b < sd \<and> ed < endDate b)"
  then show "length (bookingConflicts st spotId sd ed) > 0"
    using conflict_if_overlap_not_inside by blast
next
  assume "length (bookingConflicts st spotId sd ed) > 0"
  then show "\<exists>b\<in>set (bookings st). b_spotId b = spotId
                  \<and> overlap (startDate b) (endDate b) sd ed"
    by (rule conflict_only_if_overlap [OF assms(2)])
next
  assume c: "length (bookingConflicts st spotId sd ed) > 0"
  show "snd (postBooking st uid spotId sd ed) = st"
    by (rule postBooking_conflict(1) [OF assms(1) c])
  show "map_option statusCode (fst (postBooking st uid spotId sd ed)) = Some 403"
    by (rule postBooking_conflict(2) [OF assms(1) c])
  assume "ownerId spot \<noteq> uid"
  then show "fst (postBooking st uid spotId sd ed) = Some (Next datesBookedError)"
    by (rule postBooking_conflict(3) [OF assms(1) c])
qed

theorem postBooking_conflict_test_witness:
  "Spot_findByPk bookedStore 7 = Some exampleSpot
   \<and> list_all (\<lambda>b. startDate b \<le> endDate b) (bookings bookedStore)
   \<and> list_ex (\<lambda>b. b_spotId b = 7 \<and> overlap (startDate b) (endDate b) 0 11
                  \<and> \<not> (startDate b < 0 \<and> 11 < endDate b)) (bookings bookedStore)
   \<and> length (bookingConflicts bookedStore 7 0 11) > 0
   \<and> list_ex (\<lambda>b. b_spotId b = 7 \<and> overlap (startDate b) (endDate b) 0 11) (bookings bookedStore)
   \<and> ownerId exampleSpot \<noteq> 3
   \<and> snd (postBooking bookedStore 3 7 0 11) = bookedStore
   \<and> map_option statusCode (fst (postBooking bookedStore 3 7 0 11)) = Some 403
   \<and> fst (postBooking bookedStore 3 7 0 11) = Some (Next datesBookedError)"
proof -
  have h: "Spot_findByPk bookedStore 7 = Some exampleSpot"
    by (simp add: Spot_findByPk_def ex_defs)
  have w: "\<forall>b\<in>set (bookings bookedStore). b_spotId b = 7 \<longrightarrow> startDate b \<le> endDate b"
    by (simp add: ex_defs)
  have w': "list_all (\<lambda>b. startDate b \<le> endDate b) (bookings bookedStore)"
    by (simp add: ex_defs)
  have e: "\<exists>b\<in>set (bookings bookedStore). b_spotId b = 7
             \<and> overlap (startDate b) (endDate b) 0 11
             \<and> \<not> (startDate b < 0 \<and> 11 < endDate b)"
    by (simp add: ex_defs overlap_def)
  have e': "list_ex (\<lambda>b. b_spotId b = 7 \<and> overlap (startDate b) (endDate b) 0 11
                  \<and> \<not> (startDate b < 0 \<and> 11 < endDate b)) (bookings bookedStore)"
    by (simp add: ex_defs overlap_def)
  have o: "ownerId exampleSpot \<noteq> 3"
    by (simp add: exampleSpot_def)
  note t = postBooking_conflict_test [OF h w, of 0 11 3]
  from t e have c: "length (bookingConflicts bookedStore 7 0 11) > 0" by blast
  from t c have x: "\<exists>b\<in>set (bookings bookedStore). b_spotId b = 7
                  \<and> overlap (startDate b) (endDate b) 0 11" by blast
  then have x': "list_ex (\<lambda>b. b_spotId b = 7 \<and> overlap (startDate b) (endDate b) 0 11)
                   (bookings bookedStore)"
    by (simp add: list_ex_iff)
  from t c o have r: "snd (postBooking bookedStore 3 7 0 11) = bookedStore
     \<and> map_option statusCode (fst (postBooking bookedStore 3 7 0 11)) = Some 403
     \<and> fst (postBooking bookedStore 3 7 0 11) = Some (Next datesBookedError)" by blast
  from h w' e' c x' o r show ?thesis by blast
qed

text \<open>
  C2, as the specification words it, fails: with the booking from day 1 to day 10 in
  the store, a request from day 0 to day 11 has neither of its dates within the existing
  range, so the specification's test declares no conflict; the two ranges overlap, the
  conflict query finds the existing booking, and the request is rejected.
\<close>

theorem specConflict_counterexample:
  "\<not> list_ex (specConflict 7 0 11) (bookings bookedStore)
   \<and> list_ex (\<lambda>b. b_spotId b = 7 \<and> overlap (startDate b) (endDate b) 0 11) (bookings bookedStore)
   \<and> length (bookingConflicts bookedStore 7 0 11) > 0
   \<and> fst (postBooking bookedStore 3 7 0 11) = Some (Next datesBookedError)
   \<and> snd (postBooking bookedStore 3 7 0 11) = bookedStore"
  by (simp add: specConflict_def pb_defs ex_defs overlap_def Let_def)

text \<open>
  C3. The owner's request is answered with 403, yet the handler does not return after
  \<^verbatim>\<open>next(err)\<close>: with no conflicting booking it goes on to \<^verbatim>\<open>Booking.create\<close>, and
  the owner's booking is stored.
\<close>

theorem postBooking_owner_booking_created:
  "Spot_findByPk exampleStore 7 = Some exampleSpot \<and> ownerId exampleSpot = 1
   \<and> validateBooking 1 5
   \<and> map_option statusCode (fst (postBooking exampleStore 1 7 1 5)) = Some 403
   \<and> bookings (snd (postBooking exampleStore 1 7 1 5))
       = [\<lparr>booking_id = 1, b_spotId = 7, b_userId = 1, startDate = 1, endDate = 5\<rparr>]"
  by (simp add: pb_defs ex_defs validateBooking_def Let_def)

text \<open>
  C4. A booking request for a spot id that is not in the store is answered with
  status 404, and the store, so the table of bookings, is as it was.
\<close>

theorem postBooking_missing_spot:
  assumes "Spot_findByPk st spotId = None"
  shows "map_option statusCode (fst (postBooking st uid spotId sd ed)) = Some 404
         \<and> snd (postBooking st uid spotId sd ed) = st"
  using assms by (simp add: postBooking_def next_err_def errStatus_def)

theorem postBooking_missing_spot_witness:
  "Spot_findByPk exampleStore 9 = None
   \<and> map_option statusCode (fst (postBooking exampleStore 2 9 1 5)) = Some 404
   \<and> snd (postBooking exampleStore 2 9 1 5) = exampleStore"
proof -
  have h: "Spot_findByPk exampleStore 9 = None"
    by (simp add: Spot_findByPk_def exampleStore_def exampleSpot_def)
  show ?thesis
    using h postBooking_missing_spot [OF h, of 2 1 5] by simp
qed

text \<open>
  C5. For a spot that exists and a requester who is not its owner, a request with
  \<open>d1 < d2\<close> whose range overlaps no existing booking of the spot (each of them well
  formed, as validation leaves them) is answered with 201 and the new booking, and the
  store gains exactly that booking: this spot, this user, these two dates.
\<close>

theorem postBooking_success:
  assumes "Spot_findByPk st spotId = Some spot" and "uid \<noteq> ownerId spot" and "d1 < d2"
    and "\<forall>b\<in>set (bookings st). b_spotId b = spotId \<longrightarrow> startDate b \<le> endDate b"
    and "\<forall>b\<in>set (bookings st). b_spotId b = spotId
           \<longrightarrow> \<not> overlap (startDate b) (endDate b) d1 d2"
  shows "spot_id spot = spotId
     \<and> postBooking st uid spotId d1 d2 =
     (Some (Sent 201 (JObj (booking_toJSON
        \<lparr>booking_id = freshId (map booking_id (bookings st)), b_spotId = spotId,
         b_userId = uid, startDate = d1, endDate = d2\<rparr>))),
      st\<lparr>bookings := bookings st @
        [\<lparr>booking_id = freshId (map booking_id (bookings st)), b_spotId = spotId,
          b_userId = uid, startDate = d1, endDate = d2\<rparr>]\<rparr>)"
proof -
  have "bookingConflicts st spotId d1 d2 = []"
    using assms(4,5) by (rule no_overlap_no_conflict)
  then have "\<not> length (bookingConflicts st spotId d1 d2) > 0" by simp
  moreover have "ownerId spot \<noteq> uid" using assms(2) by simp
  ultimately show ?thesis
    using postBooking_no_conflict [OF assms(1)] Spot_findByPk_Some [OF assms(1)] by blast
qed

theorem postBooking_success_witness:
  "Spot_findByPk bookedStore 7 = Some exampleSpot \<and> 3 \<noteq> ownerId exampleSpot \<and> (11::int) < 15
   \<and> list_all (\<lambda>b. startDate b \<le> endDate b) (bookings bookedStore)
   \<and> \<not> list_ex (\<lambda>b. overlap (startDate b) (endDate b) 11 15) (bookings bookedStore)
   \<and> bookings bookedStore \<noteq> []
   \<and> postBooking bookedStore 3 7 11 15 =
       (Some (Sent 201 (JObj (booking_toJSON
          \<lparr>booking_id = 2, b_spotId = 7, b_userId = 3, startDate = 11, endDate = 15\<rparr>))),
        bookedStore\<lparr>bookings := bookings bookedStore @
          [\<lparr>booking_id = 2, b_spotId = 7, b_userId = 3, startDate = 11, endDate = 15\<rparr>]\<rparr>)"
proof -
  have h: "Spot_findByPk bookedStore 7 = Some exampleSpot"
    by (simp add: Spot_findByPk_def ex_defs)
  have o: "3 \<noteq> ownerId exampleSpot"
    by (simp add: exampleSpot_def)
  have d: "(11::int) < 15" by simp
  have w: "\<forall>b\<in>set (bookings bookedStore). b_spotId b = 7 \<longrightarrow> startDate b \<le> endDate b"
    by (simp add: ex_defs)
  have n: "\<forall>b\<in>set (bookings bookedStore). b_spotId b = 7
             \<longrightarrow> \<not> overlap (startDate b) (endDate b) 11 15"
    by (simp add: ex_defs overlap_def)
  have f: "freshId (map booking_id (bookings bookedStore)) = 2"
    by (simp add: ex_defs freshId_def)
  show ?thesis
    using h o postBooking_success [OF h o d w n]
    by (simp add: f) (simp add: ex_defs overlap_def)
qed

section \<open>Properties of review creation\<close>

lemma find_None_set: "find P xs = None \<longleftrightarrow> (\<forall>x\<in>set xs. \<not> P x)"
  by (induction xs) auto

lemma postReview_created:
  assumes "Spot_findByPk st spotId = Some spot" "ownerId spot \<noteq> uid"
    "Review_findOne st spotId uid = None"
  shows "postReview st uid spotId reviewText n =
     (Sent 201 (JObj (review_toJSON
        \<lparr>review_id = freshId (map review_id (reviews st)), r_spotId = spotId,
         r_userId = uid, r_review = reviewText, stars = n\<rparr>)),
      st\<lparr>reviews := reviews st @
        [\<lparr>review_id = freshId (map review_id (reviews st)), r_spotId = spotId,
          r_userId = uid, r_review = reviewText, stars = n\<rparr>]\<rparr>)"
  using assms by (simp add: postReview_def Review_create_def Let_def)

lemma postReview_rejected:
  assumes "\<not> ((\<exists>spot. Spot_findByPk st spotId = Some spot \<and> ownerId spot \<noteq> uid)
              \<and> Review_findOne st spotId uid = None)"
  shows "snd (postReview st uid spotId reviewText n) = st"
    and "statusCode (fst (postReview st uid spotId reviewText n)) \<in> {404, 403, 500}"
  using assms by (auto simp: postReview_def split: option.splits)

lemma postReview_oneReviewPerUser:
  assumes "oneReviewPerUser st"
  shows "oneReviewPerUser (snd (postReview st uid spotId reviewText n))"
proof (cases "(\<exists>spot. Spot_findByPk st spotId = Some spot \<and> ownerId spot \<noteq> uid)
              \<and> Review_findOne st spotId uid = None")
  case True
  then obtain spot where s: "Spot_findByPk st spotId = Some spot" "ownerId spot \<noteq> uid"
    and f: "Review_findOne st spotId uid = None" by blast
  from f have "(spotId, uid) \<notin> set (map (\<lambda>r. (r_spotId r, r_userId r)) (reviews st))"
    by (auto simp: Review_findOne_def find_None_set)
  with assms show ?thesis
    by (simp add: postReview_created [OF s f] oneReviewPerUser_def)
next
  case False
  then show ?thesis using assms postReview_rejected(1) by simp
qed

lemma postReview_noOwnerReview:
  assumes "noOwnerReview st"
  shows "noOwnerReview (snd (postReview st uid spotId reviewText n))"
proof (cases "(\<exists>spot. Spot_findByPk st spotId = Some spot \<and> ownerId spot \<noteq> uid)
              \<and> Review_findOne st spotId uid = None")
  case True
  then obtain spot where s: "Spot_findByPk st spotId = Some spot" "ownerId spot \<noteq> uid"
    and f: "Review_findOne st spotId uid = None" by blast
  show ?thesis
    using assms s
    by (simp add: postReview_created [OF s f] noOwnerReview_def Spot_findByPk_def)
next
  case False
  then show ?thesis using assms postReview_rejected(1) by simp
qed

text \<open>
  C6. Review creation keeps both invariants of the table of reviews: at most one
  review for a pair of spot and user, and no review of a spot by its owner. A request by
  a user who already has a review of the spot is rejected and the store is unchanged; a
  request by the owner is answered with 403 and the store is unchanged; the table of
  reviews changes only when the spot exists, the requester is not its owner and has no
  review of it yet, and then the response is 201 and exactly the new review is added.
\<close>

theorem postReview_invariants:
  "(oneReviewPerUser st \<longrightarrow> oneReviewPerUser (snd (postReview st uid spotId reviewText n)))
   \<and> (noOwnerReview st \<longrightarrow> noOwnerReview (snd (postReview st uid spotId reviewText n)))
   \<and> (Review_findOne st spotId uid \<noteq> None \<longrightarrow>
        snd (postReview st uid spotId reviewText n) = st
        \<and> statusCode (fst (postReview st uid spotId reviewText n)) \<in> {404, 403, 500})
   \<and> (\<forall>spot. Spot_findByPk st spotId = Some spot \<and> ownerId spot = uid \<longrightarrow>
        snd (postReview st uid spotId reviewText n) = st
        \<and> statusCode (fst (postReview st uid spotId reviewText n)) = 403)
   \<and> (reviews (snd (postReview st uid spotId reviewText n)) \<noteq> reviews st \<longrightarrow>
        (\<exists>spot. Spot_findByPk st spotId = Some spot \<and> ownerId spot \<noteq> uid)
        \<and> Review_findOne st spotId uid = None)
   \<and> ((\<exists>spot. Spot_findByPk st spotId = Some spot \<and> ownerId spot \<noteq> uid)
        \<and> Review_findOne st spotId uid = None \<longrightarrow>
        statusCode (fst (postReview st uid spotId reviewText n)) = 201
        \<and> reviews (snd (postReview st uid spotId reviewText n)) = reviews st @
            [\<lparr>review_id = freshId (map review_id (reviews st)), r_spotId = spotId,
              r_userId = uid, r_review = reviewText, stars = n\<rparr>])"
proof (intro conjI impI allI)
  assume "oneReviewPerUser st"
  then show "oneReviewPerUser (snd (postReview st uid spotId reviewText n))"
    by (rule postReview_oneReviewPerUser)
next
  assume "noOwnerReview st"
  then show "noOwnerReview (snd (postReview st uid spotId reviewText n))"
    by (rule postReview_noOwnerReview)
next
  assume a: "Review_findOne st spotId uid \<noteq> None"
  then show "snd (postReview st uid spotId reviewText n) = st"
    by (intro postReview_rejected(1)) simp
  from a show "statusCode (fst (postReview st uid spotId reviewText n)) \<in> {404, 403, 500}"
    by (intro postReview_rejected(2)) simp
next
  fix spot assume a: "Spot_findByPk st spotId = Some spot \<and> ownerId spot = uid"
  then show "snd (postReview st uid spotId reviewText n) = st"
    by (simp add: postReview_def)
  from a show "statusCode (fst (postReview st uid spotId reviewText n)) = 403"
    by (simp add: postReview_def)
next
  assume a: "reviews (snd (postReview st uid spotId reviewText n)) \<noteq> reviews st"
  have c: "(\<exists>spot. Spot_findByPk st spotId = Some spot \<and> ownerId spot \<noteq> uid)
        \<and> Review_findOne st spotId uid = None"
    using a postReview_rejected(1) [of st spotId uid reviewText n] by metis
  from c show "\<exists>spot. Spot_findByPk st spotId = Some spot \<and> ownerId spot \<noteq> uid" by blast
  from c show "Review_findOne st spotId uid = None" by blast
next
  assume "(\<exists>spot. Spot_findByPk st spotId = Some spot \<and> ownerId spot \<noteq> uid)
        \<and> Review_findOne st spotId uid = None"
  then obtain spot where s: "Spot_findByPk st spotId = Some spot" "ownerId spot \<noteq> uid"
    and f: "Review_findOne st spotId uid = None" by blast
  show "statusCode (fst (postReview st uid spotId reviewText n)) = 201"
    by (simp add: postReview_created [OF s f])
  show "reviews (snd (postReview st uid spotId reviewText n)) = reviews st @
            [\<lparr>review_id = freshId (map review_id (reviews st)), r_spotId = spotId,
              r_userId = uid, r_review = reviewText, stars = n\<rparr>]"
    by (simp add: postReview_created [OF s f])
qed

lemmas pr_defs = postReview_def Spot_findByPk_def Review_findOne_def Review_create_def
  freshId_def oneReviewPerUser_def noOwnerReview_def messageJSON_def

theorem postReview_invariants_witness:
  "oneReviewPerUser reviewedStore \<and> noOwnerReview reviewedStore
   \<and> Review_findOne reviewedStore 7 2 \<noteq> None
   \<and> snd (postReview reviewedStore 2 7 ''Again'' 4) = reviewedStore
   \<and> statusCode (fst (postReview reviewedStore 2 7 ''Again'' 4)) = 500
   \<and> Spot_findByPk reviewedStore 7 = Some exampleSpot \<and> ownerId exampleSpot = 1
   \<and> snd (postReview reviewedStore 1 7 ''Mine'' 5) = reviewedStore
   \<and> statusCode (fst (postReview reviewedStore 1 7 ''Mine'' 5)) = 403
   \<and> Review_findOne exampleStore 7 2 = None
   \<and> statusCode (fst (postReview exampleStore 2 7 ''Good'' 3)) = 201
   \<and> reviews (snd (postReview exampleStore 2 7 ''Good'' 3)) =
        [\<lparr>review_id = 1, r_spotId = 7, r_userId = 2, r_review = ''Good'', stars = 3\<rparr>]
   \<and> oneReviewPerUser (snd (postReview exampleStore 2 7 ''Good'' 3))
   \<and> noOwnerReview (snd (postReview exampleStore 2 7 ''Good'' 3))"
  using postReview_invariants [of reviewedStore 2 7 "''Again''" 4]
    postReview_invariants [of reviewedStore 1 7 "''Mine''" 5]
    postReview_invariants [of exampleStore 2 7 "''Good''" 3]
  by (simp add: pr_defs ex_defs Let_def)

section \<open>Properties of the booking list and of spot mutations\<close>

lemma getField_User:
  "getField ''User'' (booking_with_User st b) = Some (include_User st (b_userId b))"
  by (simp add: booking_with_User_def booking_toJSON_def)

lemma keys_booking_basic: "keys (booking_basic b) = [''spotId'', ''startDate'', ''endDate'']"
  by (simp add: booking_basic_def)

lemma Spot_findByPk_frame:
  "Spot_findByPk (st\<lparr>users := us, bookings := bs\<rparr>) spotId = Spot_findByPk st spotId"
  by (simp add: Spot_findByPk_def)

lemma booking_basic_userId: "booking_basic ((b::booking)\<lparr>b_userId := v\<rparr>) = booking_basic b"
  by (simp add: booking_basic_def)

text \<open>
  C8. For a spot that exists: the owner receives every booking of the spot with all
  its columns and, under \<open>User\<close>, the id, first name and last name of the booker
  (whenever the booker is a row of the table of users). Anyone else receives one record
  per booking with exactly the keys \<open>spotId\<close>, \<open>startDate\<close> and \<open>endDate\<close>, and
  that response is the same whatever the table of users holds and whoever made the
  bookings: no name can appear in it.
\<close>

theorem getBookings_views:
  assumes "Spot_findByPk st spotId = Some spot"
  shows "(ownerId spot = uid \<longrightarrow>
           getBookings st uid spotId =
             Sent 200 (JObj [(''Bookings'',
               JArr (map (booking_with_User st) (Booking_findAll st spotId)))])
           \<and> (\<forall>b\<in>set (Booking_findAll st spotId). \<forall>u.
                 User_findByPk st (b_userId b) = Some u \<longrightarrow>
                   user_id u = b_userId b
                   \<and> getField ''User'' (booking_with_User st b) =
                       Some (JObj [(''id'', JNum (of_nat (user_id u))),
                                   (''firstName'', JStr (firstName u)),
                                   (''lastName'', JStr (lastName u))])))
       \<and> (ownerId spot \<noteq> uid \<longrightarrow>
           (\<exists>rs. getBookings st uid spotId = Sent 200 (JObj [(''Bookings'', JArr rs)])
              \<and> length rs = length (Booking_findAll st spotId)
              \<and> (\<forall>r\<in>set rs. keys r = [''spotId'', ''startDate'', ''endDate'']))
           \<and> (\<forall>us f. getBookings
                 (st\<lparr>users := us,
                     bookings := map (\<lambda>b. b\<lparr>b_userId := f b\<rparr>) (bookings st)\<rparr>) uid spotId
                 = getBookings st uid spotId))"
proof (intro conjI impI allI ballI)
  assume o: "ownerId spot = uid"
  show "getBookings st uid spotId =
             Sent 200 (JObj [(''Bookings'',
               JArr (map (booking_with_User st) (Booking_findAll st spotId)))])"
    using assms o by (simp add: getBookings_def)
next
  fix b :: booking and u
  assume u: "User_findByPk st (b_userId b) = Some u"
  then show "user_id u = b_userId b"
    unfolding User_findByPk_def by (drule_tac find_Some_key) simp
  show "getField ''User'' (booking_with_User st b) =
                       Some (JObj [(''id'', JNum (of_nat (user_id u))),
                                   (''firstName'', JStr (firstName u)),
                                   (''lastName'', JStr (lastName u))])"
    by (simp add: getField_User include_User_def u user_attributes_def)
next
  assume o: "ownerId spot \<noteq> uid"
  have eq: "getBookings st uid spotId =
      Sent 200 (JObj [(''Bookings'', JArr (map booking_basic (Booking_findAll st spotId)))])"
    using assms o by (simp add: getBookings_def)
  show "\<exists>rs. getBookings st uid spotId = Sent 200 (JObj [(''Bookings'', JArr rs)])
              \<and> length rs = length (Booking_findAll st spotId)
              \<and> (\<forall>r\<in>set rs. keys r = [''spotId'', ''startDate'', ''endDate''])"
    unfolding eq by (rule exI [of _ "map booking_basic (Booking_findAll st spotId)"])
      (auto simp: keys_booking_basic)
next
  fix us f
  assume o: "ownerId spot \<noteq> uid"
  have eq: "getBookings st uid spotId =
      Sent 200 (JObj [(''Bookings'', JArr (map booking_basic (Booking_findAll st spotId)))])"
    using assms o by (simp add: getBookings_def)
  have m: "map booking_basic (Booking_findAll
             (st\<lparr>users := us, bookings := map (\<lambda>b. b\<lparr>b_userId := f b\<rparr>) (bookings st)\<rparr>) spotId)
           = map booking_basic (Booking_findAll st spotId)"
    by (simp add: Booking_findAll_def filter_map comp_def booking_basic_userId)
  show "getBookings
          (st\<lparr>users := us, bookings := map (\<lambda>b. b\<lparr>b_userId := f b\<rparr>) (bookings st)\<rparr>) uid spotId
        = getBookings st uid spotId"
    unfolding eq using assms o
    by (simp add: getBookings_def Spot_findByPk_frame m)
qed

theorem getBookings_views_witness:
  "Spot_findByPk bookedStore 7 = Some exampleSpot \<and> ownerId exampleSpot = 1
   \<and> getBookings bookedStore 1 7 =
       Sent 200 (JObj [(''Bookings'', JArr [JObj
         [(''id'', JNum 1), (''spotId'', JNum 7), (''userId'', JNum 2),
          (''startDate'', JNum 1), (''endDate'', JNum 10),
          (''User'', JObj [(''id'', JNum 2), (''firstName'', JStr ''Ada''),
                           (''lastName'', JStr ''Moon'')])]])])
   \<and> getBookings bookedStore 3 7 =
       Sent 200 (JObj [(''Bookings'', JArr [JObj
         [(''spotId'', JNum 7), (''startDate'', JNum 1), (''endDate'', JNum 10)]])])
   \<and> getBookings (bookedStore\<lparr>users := [],
          bookings := map (\<lambda>b. b\<lparr>b_userId := 3\<rparr>) (bookings bookedStore)\<rparr>) 3 7
       = getBookings bookedStore 3 7"
proof -
  have h: "Spot_findByPk bookedStore 7 = Some exampleSpot"
    by (simp add: Spot_findByPk_def ex_defs)
  have o1: "ownerId exampleSpot = 1" and o3: "ownerId exampleSpot \<noteq> 3"
    by (simp_all add: exampleSpot_def)
  have f: "Booking_findAll bookedStore 7 =
      [\<lparr>booking_id = 1, b_spotId = 7, b_userId = 2, startDate = 1, endDate = 10\<rparr>]"
    by (simp add: Booking_findAll_def ex_defs)
  have a0: "getBookings bookedStore 1 7 =
          Sent 200 (JObj [(''Bookings'',
            JArr (map (booking_with_User bookedStore) (Booking_findAll bookedStore 7)))])"
    using getBookings_views [OF h, of 1] o1 by blast
  have v: "booking_with_User bookedStore
             \<lparr>booking_id = 1, b_spotId = 7, b_userId = 2, startDate = 1, endDate = 10\<rparr> =
           JObj [(''id'', JNum 1), (''spotId'', JNum 7), (''userId'', JNum 2),
                 (''startDate'', JNum 1), (''endDate'', JNum 10),
                 (''User'', JObj [(''id'', JNum 2), (''firstName'', JStr ''Ada''),
                                  (''lastName'', JStr ''Moon'')])]"
    by (simp add: booking_with_User_def booking_toJSON_def include_User_def
        User_findByPk_def user_attributes_def ex_defs)
  have a: "getBookings bookedStore 1 7 =
       Sent 200 (JObj [(''Bookings'', JArr [JObj
         [(''id'', JNum 1), (''spotId'', JNum 7), (''userId'', JNum 2),
          (''startDate'', JNum 1), (''endDate'', JNum 10),
          (''User'', JObj [(''id'', JNum 2), (''firstName'', JStr ''Ada''),
                           (''lastName'', JStr ''Moon'')])]])])"
    unfolding a0 f using v by simp
  have b: "getBookings bookedStore 3 7 =
       Sent 200 (JObj [(''Bookings'', JArr [JObj
         [(''spotId'', JNum 7), (''startDate'', JNum 1), (''endDate'', JNum 10)]])])"
    using h o3 by (simp add: getBookings_def f booking_basic_def)
  have n0: "\<forall>us f. getBookings (bookedStore\<lparr>users := us,
          bookings := map (\<lambda>b. b\<lparr>b_userId := f b\<rparr>) (bookings bookedStore)\<rparr>) 3 7
       = getBookings bookedStore 3 7"
    using getBookings_views [OF h, of 3] o3 by blast
  have n: "getBookings (bookedStore\<lparr>users := [],
          bookings := map (\<lambda>b. b\<lparr>b_userId := 3\<rparr>) (bookings bookedStore)\<rparr>) 3 7
       = getBookings bookedStore 3 7"
    using n0 [rule_format, where us = "[]" and f = "\<lambda>b. 3"] by simp
  from h o1 a b n show ?thesis by blast
qed

lemma putSpot_owner:
  assumes "Spot_findByPk st spotId = Some spot" "ownerId spot = uid"
  shows "snd (putSpot st uid spotId body) = Spot_update st spot body"
    and "statusCode (fst (putSpot st uid spotId body)) = 200"
  using assms by (simp_all add: putSpot_def)

lemma putSpot_not_owner:
  assumes "Spot_findByPk st spotId = Some spot" "ownerId spot \<noteq> uid"
  shows "putSpot st uid spotId body = (Sent 403 (messageJSON ''Forbidden''), st)"
  using assms by (simp add: putSpot_def)

lemma deleteSpot_owner:
  assumes "Spot_findByPk st spotId = Some spot" "ownerId spot = uid"
  shows "deleteSpot st uid spotId = (Sent 200 (messageJSON ''Successfully deleted''), Spot_destroy st spot)"
  using assms by (simp add: deleteSpot_def)

lemma deleteSpot_not_owner:
  assumes "Spot_findByPk st spotId = Some spot" "ownerId spot \<noteq> uid"
  shows "deleteSpot st uid spotId = (Sent 403 (messageJSON ''Forbidden''), st)"
  using assms by (simp add: deleteSpot_def)

lemma postImage_owner:
  assumes "Spot_findByPk st spotId = Some spot" "ownerId spot = uid" "v \<noteq> []"
  shows "postImage st uid spotId (Some v) p =
     (Sent 201 (JObj (spotImage_toJSON
        \<lparr>image_id = freshId (map image_id (spotImages st)), i_spotId = spotId,
         url = v, preview = p\<rparr>)),
      st\<lparr>spotImages := spotImages st @
        [\<lparr>image_id = freshId (map image_id (spotImages st)), i_spotId = spotId,
          url = v, preview = p\<rparr>]\<rparr>)"
  using assms by (simp add: postImage_def SpotImages_create_def Let_def)

lemma postImage_not_owner:
  assumes "Spot_findByPk st spotId = Some spot" "ownerId spot \<noteq> uid" "v \<noteq> []"
  shows "postImage st uid spotId (Some v) p = (Sent 403 (messageJSON ''Forbidden''), st)"
  using assms by (simp add: postImage_def)

text \<open>
  A request without a url is turned away with 400 before the spot is looked up, whoever
  sends it, and the store is unchanged.
\<close>

lemma postImage_no_url:
  assumes "u = None \<or> u = Some []"
  shows "statusCode (fst (postImage st uid spotId u p)) = 400"
    and "snd (postImage st uid spotId u p) = st"
  using assms by (auto simp: postImage_def errStatus_def)

text \<open>
  C9. For a spot that exists (and, for an image, a request that carries a url): when
  the requester is the owner, the edit writes the body to the spot (200), the delete
  removes it (200) and the image is added (201); when the requester is not the owner,
  each of the three is answered with 403 "Forbidden" and the whole store, so the spot and
  its images, is unchanged.
\<close>

theorem spot_mutation_iff_owner:
  assumes "Spot_findByPk st spotId = Some spot" and "v \<noteq> []"
  shows "(ownerId spot = uid \<longrightarrow>
            statusCode (fst (putSpot st uid spotId body)) = 200
            \<and> snd (putSpot st uid spotId body) = Spot_update st spot body
            \<and> deleteSpot st uid spotId =
                (Sent 200 (messageJSON ''Successfully deleted''), Spot_destroy st spot)
            \<and> statusCode (fst (postImage st uid spotId (Some v) p)) = 201
            \<and> spotImages (snd (postImage st uid spotId (Some v) p)) = spotImages st @
                [\<lparr>image_id = freshId (map image_id (spotImages st)), i_spotId = spotId,
                  url = v, preview = p\<rparr>])
       \<and> (ownerId spot \<noteq> uid \<longrightarrow>
            putSpot st uid spotId body = (Sent 403 (messageJSON ''Forbidden''), st)
            \<and> deleteSpot st uid spotId = (Sent 403 (messageJSON ''Forbidden''), st)
            \<and> postImage st uid spotId (Some v) p = (Sent 403 (messageJSON ''Forbidden''), st))"
proof (intro conjI impI)
  assume o: "ownerId spot = uid"
  show "statusCode (fst (putSpot st uid spotId body)) = 200"
    by (rule putSpot_owner(2) [OF assms(1) o])
  show "snd (putSpot st uid spotId body) = Spot_update st spot body"
    by (rule putSpot_owner(1) [OF assms(1) o])
  show "deleteSpot st uid spotId =
          (Sent 200 (messageJSON ''Successfully deleted''), Spot_destroy st spot)"
    by (rule deleteSpot_owner [OF assms(1) o])
  show "statusCode (fst (postImage st uid spotId (Some v) p)) = 201"
    by (simp add: postImage_owner [OF assms(1) o assms(2)])
  show "spotImages (snd (postImage st uid spotId (Some v) p)) = spotImages st @
                [\<lparr>image_id = freshId (map image_id (spotImages st)), i_spotId = spotId,
                  url = v, preview = p\<rparr>]"
    by (simp add: postImage_owner [OF assms(1) o assms(2)])
next
  assume o: "ownerId spot \<noteq> uid"
  show "putSpot st uid spotId body = (Sent 403 (messageJSON ''Forbidden''), st)"
    by (rule putSpot_not_owner [OF assms(1) o])
  show "deleteSpot st uid spotId = (Sent 403 (messageJSON ''Forbidden''), st)"
    by (rule deleteSpot_not_owner [OF assms(1) o])
  show "postImage st uid spotId (Some v) p = (Sent 403 (messageJSON ''Forbidden''), st)"
    by (rule postImage_not_owner [OF assms(1) o assms(2)])
qed

theorem spot_mutation_iff_owner_witness:
  "Spot_findByPk exampleStore 7 = Some exampleSpot \<and> ''a.png'' \<noteq> [] \<and> ownerId exampleSpot = 1
   \<and> statusCode (fst (putSpot exampleStore 1 7 exampleBody)) = 200
   \<and> snd (putSpot exampleStore 1 7 exampleBody) = Spot_update exampleStore exampleSpot exampleBody
   \<and> deleteSpot exampleStore 1 7 =
       (Sent 200 (messageJSON ''Successfully deleted''), Spot_destroy exampleStore exampleSpot)
   \<and> spots (Spot_destroy exampleStore exampleSpot) = []
   \<and> statusCode (fst (postImage exampleStore 1 7 (Some ''a.png'') (Some True))) = 201
   \<and> spotImages (snd (postImage exampleStore 1 7 (Some ''a.png'') (Some True))) =
       [\<lparr>image_id = 1, i_spotId = 7, url = ''a.png'', preview = Some True\<rparr>]
   \<and> putSpot exampleStore 2 7 exampleBody = (Sent 403 (messageJSON ''Forbidden''), exampleStore)
   \<and> deleteSpot exampleStore 2 7 = (Sent 403 (messageJSON ''Forbidden''), exampleStore)
   \<and> postImage exampleStore 2 7 (Some ''a.png'') (Some True) =
       (Sent 403 (messageJSON ''Forbidden''), exampleStore)"
proof -
  have h: "Spot_findByPk exampleStore 7 = Some exampleSpot"
    by (simp add: Spot_findByPk_def ex_defs)
  have v: "''a.png'' \<noteq> []" by simp
  have o: "ownerId exampleSpot = 1" by (simp add: exampleSpot_def)
  have f: "freshId (map image_id (spotImages exampleStore)) = 1"
    by (simp add: freshId_def exampleStore_def)
  have d: "spots (Spot_destroy exampleStore exampleSpot) = []"
    by (simp add: Spot_destroy_def exampleStore_def)
  have e: "spotImages exampleStore = []"
    by (simp add: exampleStore_def)
  show ?thesis
    using h o d spot_mutation_iff_owner [OF h v, of 1 exampleBody "Some True"]
      spot_mutation_iff_owner [OF h v, of 2 exampleBody "Some True"]
    by (simp add: f e freshId_def)
qed

lemma spots_putSpot:
  "spots (snd (putSpot st uid spotId body)) = spots st
   \<or> (statusCode (fst (putSpot st uid spotId body)) = 200
      \<and> spots (snd (putSpot st uid spotId body)) =
          map (\<lambda>s. if spot_id s = spotId
                    then s\<lparr>address := address body, city := city body,
                           state := state body, country := country body,
                           lat := lat body, lng := lng body, name := name body,
                           description := description body, price := price body\<rparr>
                    else s) (spots st))"
proof (cases "Spot_findByPk st spotId")
  case None
  then show ?thesis by (simp add: putSpot_def)
next
  case (Some spot)
  then have "spot_id spot = spotId"
    unfolding Spot_findByPk_def by (drule_tac find_Some_key) simp
  with Some show ?thesis by (simp add: putSpot_def Spot_update_def)
qed

lemma putSpot_other_tables:
  "users (snd (putSpot st uid spotId body)) = users st
   \<and> spotImages (snd (putSpot st uid spotId body)) = spotImages st
   \<and> bookings (snd (putSpot st uid spotId body)) = bookings st
   \<and> reviews (snd (putSpot st uid spotId body)) = reviews st"
  by (simp add: putSpot_def Spot_update_def split: option.splits)

lemma putSpot_success_spots:
  assumes "statusCode (fst (putSpot st uid spotId body)) = 200"
  shows "spots (snd (putSpot st uid spotId body)) =
          map (\<lambda>s. if spot_id s = spotId
                    then s\<lparr>address := address body, city := city body,
                           state := state body, country := country body,
                           lat := lat body, lng := lng body, name := name body,
                           description := description body, price := price body\<rparr>
                    else s) (spots st)"
proof (cases "Spot_findByPk st spotId")
  case None
  with assms show ?thesis by (simp add: putSpot_def messageJSON_def)
next
  case (Some spot)
  then have "spot_id spot = spotId"
    unfolding Spot_findByPk_def by (drule_tac find_Some_key) simp
  with Some assms show ?thesis
    by (simp add: putSpot_def Spot_update_def split: if_splits)
qed

text \<open>
  C10. An edit never changes the key or the owner of any spot, leaves every spot with
  another key as it was, and leaves the other tables as they were; when it succeeds, the
  spot with the requested key has the nine columns of the body, and its own key and
  owner.
\<close>

theorem putSpot_frame:
  "length (spots (snd (putSpot st uid spotId body))) = length (spots st)
   \<and> (\<forall>i<length (spots st).
        spot_id (spots (snd (putSpot st uid spotId body)) ! i) = spot_id (spots st ! i)
        \<and> ownerId (spots (snd (putSpot st uid spotId body)) ! i) = ownerId (spots st ! i)
        \<and> (spot_id (spots st ! i) \<noteq> spotId \<longrightarrow>
             spots (snd (putSpot st uid spotId body)) ! i = spots st ! i))
   \<and> (statusCode (fst (putSpot st uid spotId body)) = 200 \<longrightarrow>
        (\<forall>i<length (spots st). spot_id (spots st ! i) = spotId \<longrightarrow>
           spots (snd (putSpot st uid spotId body)) ! i =
             \<lparr>address = address body, city = city body, state = state body,
              country = country body, lat = lat body, lng = lng body, name = name body,
              description = description body, price = price body,
              spot_id = spot_id (spots st ! i), ownerId = ownerId (spots st ! i)\<rparr>))
   \<and> users (snd (putSpot st uid spotId body)) = users st
   \<and> spotImages (snd (putSpot st uid spotId body)) = spotImages st
   \<and> bookings (snd (putSpot st uid spotId body)) = bookings st
   \<and> reviews (snd (putSpot st uid spotId body)) = reviews st"
proof (intro conjI)
  show "length (spots (snd (putSpot st uid spotId body))) = length (spots st)"
    using spots_putSpot [of st uid spotId body] by auto
  show "\<forall>i<length (spots st).
        spot_id (spots (snd (putSpot st uid spotId body)) ! i) = spot_id (spots st ! i)
        \<and> ownerId (spots (snd (putSpot st uid spotId body)) ! i) = ownerId (spots st ! i)
        \<and> (spot_id (spots st ! i) \<noteq> spotId \<longrightarrow>
             spots (snd (putSpot st uid spotId body)) ! i = spots st ! i)"
    using spots_putSpot [of st uid spotId body] by auto
  show "statusCode (fst (putSpot st uid spotId body)) = 200 \<longrightarrow>
        (\<forall>i<length (spots st). spot_id (spots st ! i) = spotId \<longrightarrow>
           spots (snd (putSpot st uid spotId body)) ! i =
             \<lparr>address = address body, city = city body, state = state body,
              country = country body, lat = lat body, lng = lng body, name = name body,
              description = description body, price = price body,
              spot_id = spot_id (spots st ! i), ownerId = ownerId (spots st ! i)\<rparr>)"
    by (auto simp: putSpot_success_spots)
qed (simp_all add: putSpot_other_tables)

theorem putSpot_frame_witness:
  "statusCode (fst (putSpot exampleStore 1 7 exampleBody)) = 200
   \<and> (0::nat) < length (spots exampleStore) \<and> spot_id (spots exampleStore ! 0) = 7
   \<and> spots (snd (putSpot exampleStore 1 7 exampleBody)) ! 0 =
       \<lparr>address = ''2 Oak Ave'', city = ''Shelbyville'', state = ''IL'', country = ''USA'',
        lat = 41, lng = -89, name = ''Lodge'', description = ''A lodge'', price = 120,
        spot_id = 7, ownerId = 1\<rparr>
   \<and> spot_id (spots (snd (putSpot exampleStore 1 9 exampleBody)) ! 0) = 7
   \<and> spots (snd (putSpot exampleStore 1 9 exampleBody)) ! 0 = spots exampleStore ! 0"
  using putSpot_frame [of exampleStore 1 7 exampleBody]
    putSpot_frame [of exampleStore 1 9 exampleBody]
  by (simp add: ex_defs putSpot_def Spot_findByPk_def Spot_update_def)

section \<open>Properties of the average rating\<close>

text \<open>
  The alias of the aggregate is not an attribute of the review model, so the reducer reads
  \<^verbatim>\<open>undefined\<close> and stores \<^verbatim>\<open>NaN\<close>: the list view reports \<^verbatim>\<open>null\<close> for every
  spot, whatever its reviews.
\<close>

lemma property_avgRating: "property Review_attributes ''avgRating'' row = None"
  by (simp add: property_def Review_attributes_def)

lemma foldl_NaN:
  assumes "\<forall>k. m k = None \<or> m k = Some NaN"
  shows "\<forall>k. foldl (\<lambda>acc row.
              (case (property Review_attributes ''spotId'' row,
                     property Review_attributes ''avgRating'' row) of
                 (spotId, avgRating) \<Rightarrow> acc(spotId \<mapsto> parseFloat avgRating))) m rows k = None
            \<or> foldl (\<lambda>acc row.
              (case (property Review_attributes ''spotId'' row,
                     property Review_attributes ''avgRating'' row) of
                 (spotId, avgRating) \<Rightarrow> acc(spotId \<mapsto> parseFloat avgRating))) m rows k = Some NaN"
  using assms
proof (induction rows arbitrary: m)
  case Nil
  then show ?case by simp
next
  case (Cons row rows)
  show ?case
    unfolding foldl_Cons
    by (rule Cons.IH) (use Cons.prems in \<open>simp add: property_avgRating parseFloat_def\<close>)
qed

lemma orNull_avgRatingsMap: "orNull (avgRatingsMap rows k) = JNull"
proof -
  have "avgRatingsMap rows k = None \<or> avgRatingsMap rows k = Some NaN"
    unfolding avgRatingsMap_def using foldl_NaN [of Map.empty rows] by simp
  then show ?thesis by (auto simp: orNull_def)
qed

lemma getSpots_avgRating_null:
  "getSpots st found page pageSize =
     Sent 200 (JObj [(''Spots'',
                      JArr (map (\<lambda>spot. JObj (spot_toJSON spot @ [(''avgRating'', JNull)])) found)),
                     (''page'', JNum (of_nat page)),
                     (''size'', JNum (of_nat pageSize)),
                     (''total'', JNum (of_nat (length found)))])"
  by (simp add: getSpots_def Let_def orNull_avgRatingsMap)

text \<open>
  The average that the detail view computes is 0 without reviews and otherwise the sum
  of the stars divided by their number; the query that follows fails, so the view answers
  with status 500 and reports no average.
\<close>

lemma foldl_stars: "foldl (\<lambda>acc review. acc + stars review) a rs = a + sum_list (map stars rs)"
  by (induction rs arbitrary: a) auto

lemma detail_avgStarRating:
  "avgStarRating st spotId =
     (if Review_findAll st spotId = [] then 0
      else of_int (sum_list (map stars (Review_findAll st spotId)))
           / of_nat (length (Review_findAll st spotId)))"
  by (simp add: avgStarRating_def Let_def foldl_stars Review_count_def Review_findAll_def)

lemma getSpot_fails: "getSpot st spotId =
    Next \<lparr>status = None, message = ''no such column: SpotImages.ownerId'', errors = []\<rparr>"
  by (simp add: getSpot_def Let_def include_SpotImages_attributes_def SpotImages_columns_def)

text \<open>
  C7. The average rating is not reported as the claim says. In the example store with
  the reviews of 3 and 5 stars on spot 7, the grouped query holds the average 4 under its
  alias, yet the list view reports \<^verbatim>\<open>null\<close> for spot 7; the detail view computes 4
  (and 0 for the store without reviews), yet its query for the spot fails and the
  response has status 500 in both stores.
\<close>

theorem average_rating_not_reported:
  "map stars (Review_findAll reviewedStore 7) = [3, 5]
   \<and> Review_avgBySpot reviewedStore [7] = [[(''spotId'', 7), (''avgRating'', 4)]]
   \<and> getSpots reviewedStore [exampleSpot] 1 20 =
       Sent 200 (JObj [(''Spots'', JArr [JObj (spot_toJSON exampleSpot @ [(''avgRating'', JNull)])]),
                       (''page'', JNum 1), (''size'', JNum 20), (''total'', JNum 1)])
   \<and> Spot_findByPk reviewedStore 7 = Some exampleSpot
   \<and> avgStarRating reviewedStore 7 = 4
   \<and> statusCode (getSpot reviewedStore 7) = 500
   \<and> Review_findAll exampleStore 7 = []
   \<and> avgStarRating exampleStore 7 = 0
   \<and> statusCode (getSpot exampleStore 7) = 500"
proof -
  have r1: "map stars (Review_findAll reviewedStore 7) = [3, 5]"
    by (simp add: Review_findAll_def ex_defs)
  have q: "Review_avgBySpot reviewedStore [7] = [[(''spotId'', 7), (''avgRating'', 4)]]"
    by (simp add: Review_avgBySpot_def AVG_def ex_defs)
  have i: "spot_id exampleSpot = 7" by (simp add: exampleSpot_def)
  have m: "avgRatingsMap [[(''spotId'', 7), (''avgRating'', 4)]] (Some 7) = Some NaN"
    by (simp add: avgRatingsMap_def property_def Review_attributes_def parseFloat_def)
  have l: "getSpots reviewedStore [exampleSpot] 1 20 =
       Sent 200 (JObj [(''Spots'', JArr [JObj (spot_toJSON exampleSpot @ [(''avgRating'', JNull)])]),
                       (''page'', JNum 1), (''size'', JNum 20), (''total'', JNum 1)])"
    by (simp add: getSpots_def Let_def i q m orNull_def)
  have h: "Spot_findByPk reviewedStore 7 = Some exampleSpot"
    by (simp add: Spot_findByPk_def ex_defs)
  have a1: "avgStarRating reviewedStore 7 = 4" and a2: "avgStarRating exampleStore 7 = 0"
    by (simp_all add: avgStarRating_def Review_count_def Review_findAll_def Let_def ex_defs)
  have r2: "Review_findAll exampleStore 7 = []"
    by (simp add: Review_findAll_def ex_defs)
  have d: "statusCode (getSpot reviewedStore 7) = 500" "statusCode (getSpot exampleStore 7) = 500"
    by (simp_all add: getSpot_def Let_def include_SpotImages_attributes_def
        SpotImages_columns_def errStatus_def)
  from r1 q l h a1 a2 r2 d show ?thesis by blast
qed

end
